theory Spec2Isabelle
  imports Main "HOL-Library.AList"
begin

section \<open>Data model\<close>

text \<open>
  The backend of the template is given as Python fragments in the project's style guide
  (routes, models, authentication). Each fragment is embedded below under its own name.
  Timestamps are whole seconds since the epoch, the granularity of a JWT NumericDate.
\<close>

type_synonym datetime = int

text \<open>
  \<^verbatim>\<open>
  class User(SQLModel, table=True):
      id: Optional[int] = SQLField(default=None, primary_key=True)
      email: str = SQLField(unique=True, index=True)
      full_name: str
      hashed_password: str
      is_active: bool = True
      created_at: datetime = SQLField(default_factory=datetime.utcnow)
  \<close>
  A row read from the table has its primary key set, so \<open>id\<close> is an \<open>int\<close> here. The field
  names \<open>id\<close> and \<open>created_at\<close> carry the table's name, since both tables have them.
\<close>

record User =
  id_user :: int
  email :: string
  full_name :: string
  hashed_password :: string
  is_active :: bool
  created_at_user :: datetime

text \<open>
  Modelled from the spec: the \<open>Todo\<close> model (\<open>app.models.todo\<close>) is imported by the routes but
  is not among the sources. Its fields are those of the spec's data model: identifier, owning
  user reference, title, completion flag, creation timestamp.
\<close>

record Todo =
  id_todo :: int
  user_id :: int
  title :: string
  completed :: bool
  created_at_todo :: datetime

text \<open>
  Modelled from the spec: the request schema \<open>TodoCreate\<close> (\<open>app.schemas.todo\<close>) is not among
  the sources. The spec's \<open>create(user_id, title)\<close> takes a title only.
\<close>

record TodoCreate =
  title_in :: string

text \<open>
  \<^verbatim>\<open>
  class UserCreate(BaseModel):
      email: EmailStr = Field(description="User email")
      password: str = Field(min_length=8)
      full_name: str = Field(min_length=1)
  \<close>
\<close>

record UserCreate =
  email_in :: string
  password_in :: string
  full_name_in :: string

text \<open>
  The database session: the two tables \<open>users\<close> and \<open>todos\<close>, each a list of rows in the
  order in which a query without \<open>ORDER BY\<close> scans them.
\<close>

record db =
  users :: "User list"
  todos :: "Todo list"

text \<open>
  Errors are values. \<open>HTTPException\<close> is the one the fragments raise; the other three are the
  typed failures of the spec's services.
\<close>

datatype error =
    HTTPException nat string
  | ValidationError
  | DuplicateEmail
  | InvalidCredentials

section \<open>Todo routes\<close>

text \<open>
  \<open>.offset(skip)\<close> and \<open>.limit(limit)\<close> on the configured store
  (\<open>DATABASE_URL=sqlite:///app.db\<close>): \<open>skip\<close> and \<open>limit\<close> are Python ints taken from the
  query string, so they may be negative; SQLite reads a negative \<open>OFFSET\<close> as zero and a
  negative \<open>LIMIT\<close> as no upper bound.
\<close>

definition offset_rows :: "int \<Rightarrow> 'a list \<Rightarrow> 'a list" where
  "offset_rows skip rows = drop (nat skip) rows"

definition limit_rows :: "int \<Rightarrow> 'a list \<Rightarrow> 'a list" where
  "limit_rows limit rows = (if limit < 0 then rows else take (nat limit) rows)"

text \<open>
  \<^verbatim>\<open>
  @router.get("/", response_model=list[TodoResponse])
  def list_todos(db, user, skip: int = 0, limit: int = 100):
      todos = db.query(Todo).filter(Todo.user_id == user.id).offset(skip).limit(limit).all()
      return todos
  \<close>
\<close>

definition list_todos :: "db \<Rightarrow> User \<Rightarrow> int \<Rightarrow> int \<Rightarrow> Todo list" where
  "list_todos d user skip limit =
     limit_rows limit (offset_rows skip
       (filter (\<lambda>t. user_id t = id_user user) (todos d)))"

text \<open>The route with its query parameters left out or given: \<open>skip\<close> defaults to 0, \<open>limit\<close> to 100.\<close>

definition get_todos :: "db \<Rightarrow> User \<Rightarrow> int option \<Rightarrow> int option \<Rightarrow> Todo list" where
  "get_todos d user skip limit =
     list_todos d user (case skip of None \<Rightarrow> 0 | Some s \<Rightarrow> s)
                       (case limit of None \<Rightarrow> 100 | Some l \<Rightarrow> l)"

text \<open>
  The primary key the store gives a new row: one more than the largest key in the table
  (SQLite's \<open>INTEGER PRIMARY KEY\<close>), 1 for an empty table.
\<close>

definition next_id :: "int list \<Rightarrow> int" where
  "next_id ids = (if ids = [] then 1 else Max (set ids) + 1)"

text \<open>
  \<^verbatim>\<open>
  @router.post("/", response_model=TodoResponse, status_code=status.HTTP_201_CREATED)
  def create_todo(todo_in: TodoCreate, db, user):
      todo = Todo(**todo_in.model_dump(), user_id=user.id)
      db.add(todo)
      db.commit()
      db.refresh(todo)
      return todo
  \<close>
  The new row goes to the end of the table; the clock reading that fills \<open>created_at\<close> is the
  argument \<open>now\<close>. The function returns the refreshed row and the session after the commit.
\<close>

definition create_todo :: "db \<Rightarrow> User \<Rightarrow> TodoCreate \<Rightarrow> datetime \<Rightarrow> Todo \<times> db" where
  "create_todo d user todo_in now =
     (let todo = \<lparr>id_todo = next_id (map id_todo (todos d)),
                  user_id = id_user user,
                  title = title_in todo_in,
                  completed = False,
                  created_at_todo = now\<rparr>
      in (todo, d\<lparr>todos := todos d @ [todo]\<rparr>))"

section \<open>Authentication\<close>

text \<open>
  The process-wide configuration the fragments read (\<open>app/core/config.py\<close>): the signing secret
  \<open>SECRET_KEY\<close> and the algorithm \<open>ALGORITHM\<close>. The algorithm is the signing function itself,
  from key and claims to signature; nothing is assumed about it.
\<close>

datatype claim_value = Num int | Str string

type_synonym claims = "(string \<times> claim_value) list"

record settings =
  SECRET_KEY :: string
  ALGORITHM :: "string \<Rightarrow> claims \<Rightarrow> string"

text \<open>
  \<open>pwd_context = CryptContext(schemes=["bcrypt"], deprecated="auto")\<close>: \<open>pwd_hash\<close> takes the
  salt and the password, \<open>pwd_verify\<close> the password and a stored hash. Both are parameters.
\<close>

record CryptContext =
  pwd_hash :: "string \<Rightarrow> string \<Rightarrow> string"
  pwd_verify :: "string \<Rightarrow> string \<Rightarrow> bool"

text \<open>
  A bearer token as \<open>jose.jwt\<close> sees it: either a string that does not parse as a JWT, or the
  claims it carries together with its signature. A claim set is a Python dict with string keys,
  here an association list; a claim value is a JSON number (\<open>Num\<close>, a NumericDate) or a JSON
  string (\<open>Str\<close>).
\<close>

datatype token = Jwt (claims_of: claims) (signature_of: string) | Malformed string

datatype JWTError = JWTError

definition jwt_encode :: "claims \<Rightarrow> string \<Rightarrow> (string \<Rightarrow> claims \<Rightarrow> string) \<Rightarrow> token" where
  "jwt_encode to_encode key algorithm = Jwt to_encode (algorithm key to_encode)"

text \<open>
  The checks of \<open>jose.jwt\<close> on the two claims the fragments write and read. \<open>_validate_exp\<close>:
  a token without \<open>exp\<close> does not expire; an \<open>exp\<close> that is not a number is refused (a string of
  digits, which Python's \<open>int()\<close> would read, is not told apart from other strings); a
  numeric \<open>exp\<close> is refused when it lies before the clock reading (\<open>exp < now\<close>, no leeway).
  \<open>_validate_sub\<close>: a \<open>sub\<close> that is present must be a string (\<open>Subject must be a string\<close>).
  Both refusals are \<open>JWTError\<close>s.
\<close>

definition validate_exp :: "claims \<Rightarrow> datetime \<Rightarrow> bool" where
  "validate_exp payload now =
     (case map_of payload ''exp'' of
        None \<Rightarrow> True
      | Some (Num e) \<Rightarrow> \<not> e < now
      | Some (Str _) \<Rightarrow> False)"

definition validate_sub :: "claims \<Rightarrow> bool" where
  "validate_sub payload =
     (case map_of payload ''sub'' of
        None \<Rightarrow> True
      | Some (Str _) \<Rightarrow> True
      | Some (Num _) \<Rightarrow> False)"

text \<open>
  \<open>jwt.decode(token, key, algorithms)\<close> raises \<open>JWTError\<close> for a token that does not parse, for a
  signature that does not verify, and for claims that fail the checks above; otherwise it
  returns the claims.
\<close>

definition jwt_decode ::
  "token \<Rightarrow> string \<Rightarrow> (string \<Rightarrow> claims \<Rightarrow> string) \<Rightarrow> datetime \<Rightarrow> JWTError + claims" where
  "jwt_decode tok key algorithm now =
     (case tok of
        Malformed _ \<Rightarrow> Inl JWTError
      | Jwt payload sg \<Rightarrow>
          if sg \<noteq> algorithm key payload then Inl JWTError
          else if \<not> validate_exp payload now then Inl JWTError
          else if \<not> validate_sub payload then Inl JWTError
          else Inr payload)"

text \<open>\<open>timedelta(minutes=15)\<close>, the default of \<open>expires_delta\<close>, in seconds.\<close>

definition default_expires_delta :: int where
  "default_expires_delta = 15 * 60"

text \<open>
  \<^verbatim>\<open>
  def create_access_token(data: dict, expires_delta: timedelta = timedelta(minutes=15)):
      to_encode = data.copy()
      expire = datetime.utcnow() + expires_delta
      to_encode.update({"exp": expire})
      encoded_jwt = jwt.encode(to_encode, SECRET_KEY, algorithm=ALGORITHM)
      return encoded_jwt
  \<close>
  \<open>now\<close> is the reading of \<open>datetime.utcnow()\<close>; \<open>jwt.encode\<close> writes the \<open>datetime\<close> under
  \<open>exp\<close> as a number.
\<close>

definition create_access_token :: "settings \<Rightarrow> claims \<Rightarrow> int \<Rightarrow> datetime \<Rightarrow> token" where
  "create_access_token cfg data expires_delta now =
     (let to_encode = data;
          expire = now + expires_delta;
          to_encode = AList.update ''exp'' (Num expire) to_encode
      in jwt_encode to_encode (SECRET_KEY cfg) (ALGORITHM cfg))"

text \<open>
  \<^verbatim>\<open>
  def get_current_user(token: str = Depends(oauth2_scheme)):
      try:
          payload = jwt.decode(token, SECRET_KEY, algorithms=[ALGORITHM])
          user_id = payload.get("sub")
          if user_id is None:
              raise HTTPException(status_code=401, detail="Invalid token")
      except JWTError:
          raise HTTPException(status_code=401, detail="Invalid token")

      user = get_user_by_id(user_id)
      if not user:
          raise HTTPException(status_code=401, detail="User not found")
      return user
  \<close>
  \<open>get_user_by_id\<close> is called here but is not among the sources, and nothing else says what it
  does: it is a parameter, any function from the subject and the state of the store (of any
  type \<open>'s\<close>) to a user or nothing and the state it leaves. \<open>get_current_user\<close> takes the state of
  the store and returns it with its result, so that what it does to the store is part of its
  value.
\<close>

definition get_current_user ::
  "settings \<Rightarrow> (claim_value \<Rightarrow> 's \<Rightarrow> User option \<times> 's) \<Rightarrow> token \<Rightarrow> datetime \<Rightarrow> 's
     \<Rightarrow> (error + User) \<times> 's" where
  "get_current_user cfg get_user_by_id tok now s =
     (case jwt_decode tok (SECRET_KEY cfg) (ALGORITHM cfg) now of
        Inl JWTError \<Rightarrow> (Inl (HTTPException 401 ''Invalid token''), s)
      | Inr payload \<Rightarrow>
          (case map_of payload ''sub'' of
             None \<Rightarrow> (Inl (HTTPException 401 ''Invalid token''), s)
           | Some subject \<Rightarrow>
               (case get_user_by_id subject s of
                  (None, s') \<Rightarrow> (Inl (HTTPException 401 ''User not found''), s')
                | (Some user, s') \<Rightarrow> (Inr user, s'))))"

text \<open>
  The \<open>try\<close> block of \<open>get_current_user\<close> by itself, from the token to the subject or to the 401
  \<open>Invalid token\<close>: the token check, which the spec calls \<open>verify(token) \<rightarrow> UserId\<close>. The block
  names neither the session nor \<open>get_user_by_id\<close>; it is run in a state of the store like every
  other operation and returns that state with its result.
\<close>

definition verify ::
  "settings \<Rightarrow> token \<Rightarrow> datetime \<Rightarrow> 's \<Rightarrow> (error + claim_value) \<times> 's" where
  "verify cfg tok now s =
     (case jwt_decode tok (SECRET_KEY cfg) (ALGORITHM cfg) now of
        Inl JWTError \<Rightarrow> (Inl (HTTPException 401 ''Invalid token''), s)
      | Inr payload \<Rightarrow>
          (case map_of payload ''sub'' of
             None \<Rightarrow> (Inl (HTTPException 401 ''Invalid token''), s)
           | Some subject \<Rightarrow> (Inr subject, s)))"

section \<open>Services that the sources do not contain\<close>

text \<open>
  Python's \<open>str\<close> of an int: its decimal digits, with a minus sign for a negative one.
\<close>

definition digit_char :: "nat \<Rightarrow> char" where
  "digit_char n = ''0123456789'' ! (n mod 10)"

fun str_nat :: "nat \<Rightarrow> string" where
  "str_nat n = (if n < 10 then [digit_char n] else str_nat (n div 10) @ [digit_char n])"

declare str_nat.simps [simp del]

definition str :: "int \<Rightarrow> string" where
  "str i = (if i < 0 then CHR ''-'' # str_nat (nat (- i)) else str_nat (nat i))"

text \<open>Case-insensitive comparison of emails: both sides in lower case (ASCII letters).\<close>

definition lower_char :: "char \<Rightarrow> char" where
  "lower_char c =
     (case map_of (zip ''ABCDEFGHIJKLMNOPQRSTUVWXYZ'' ''abcdefghijklmnopqrstuvwxyz'') c of
        None \<Rightarrow> c
      | Some l \<Rightarrow> l)"

definition lower :: "string \<Rightarrow> string" where
  "lower s = map lower_char s"

text \<open>
  Modelled from the spec: \<open>register(email, password, full_name)\<close> is not among the sources.
  It fails with \<open>DuplicateEmail\<close> if the email is already present (emails compare
  case-insensitively) and otherwise stores a new user holding a salted hash of the password,
  never the plaintext. The new row is a \<open>User\<close> of the sources: \<open>is_active\<close> defaults to
  \<open>True\<close>, \<open>created_at\<close> to the clock reading.
\<close>

definition register ::
  "CryptContext \<Rightarrow> db \<Rightarrow> UserCreate \<Rightarrow> string \<Rightarrow> datetime \<Rightarrow> (error + User) \<times> db" where
  "register ctx d user_in salt now =
     (if list_ex (\<lambda>u. lower (email u) = lower (email_in user_in)) (users d)
      then (Inl DuplicateEmail, d)
      else (let user = \<lparr>id_user = next_id (map id_user (users d)),
                         email = email_in user_in,
                         full_name = full_name_in user_in,
                         hashed_password = pwd_hash ctx salt (password_in user_in),
                         is_active = True,
                         created_at_user = now\<rparr>
            in (Inr user, d\<lparr>users := users d @ [user]\<rparr>)))"

text \<open>
  Modelled from the spec: \<open>authenticate(email, password)\<close> is not among the sources. It fails
  with \<open>InvalidCredentials\<close> if the email is unknown or the hash does not match; on success it
  mints a signed token with subject = user id and the fixed expiry, through
  \<open>create_access_token\<close> of the sources with its default lifetime. The subject of a JWT is a
  string, so the id goes in as \<open>str(user.id)\<close>.
\<close>

definition authenticate ::
  "settings \<Rightarrow> CryptContext \<Rightarrow> db \<Rightarrow> string \<Rightarrow> string \<Rightarrow> datetime \<Rightarrow> error + token" where
  "authenticate cfg ctx d em password now =
     (case find (\<lambda>u. lower (email u) = lower em) (users d) of
        None \<Rightarrow> Inl InvalidCredentials
      | Some user \<Rightarrow>
          if \<not> pwd_verify ctx password (hashed_password user) then Inl InvalidCredentials
          else Inr (create_access_token cfg [(''sub'', Str (str (id_user user)))]
                      default_expires_delta now))"

text \<open>
  Modelled from the spec: the request schema \<open>TodoCreate\<close> is not among the sources; the spec's
  \<open>create(user_id, title)\<close> fails with \<open>ValidationError\<close> if the title is empty, before anything
  is written, and otherwise persists a new Todo, which is \<open>create_todo\<close> of the sources.
\<close>

definition validate_TodoCreate :: "string \<Rightarrow> error + TodoCreate" where
  "validate_TodoCreate ttl = (if ttl = [] then Inl ValidationError else Inr \<lparr>title_in = ttl\<rparr>)"

definition create :: "db \<Rightarrow> User \<Rightarrow> string \<Rightarrow> datetime \<Rightarrow> (error + Todo) \<times> db" where
  "create d user ttl now =
     (case validate_TodoCreate ttl of
        Inl e \<Rightarrow> (Inl e, d)
      | Inr todo_in \<Rightarrow>
          (case create_todo d user todo_in now of (todo, d') \<Rightarrow> (Inr todo, d')))"

text \<open>
  Modelled from the spec: the API layer's register route is not among the sources. Response
  bodies are JSON objects, lists of field name and value. The body of a registered user is the
  \<open>User\<close> row without its hash field; a failure maps to its status of the spec's table and the
  structured body \<open>{detail: string}\<close>.
\<close>

datatype json = JInt int | JStr string | JBool bool

type_synonym body = "(string \<times> json) list"

definition user_response :: "User \<Rightarrow> body" where
  "user_response u =
     [(''id'', JInt (id_user u)),
      (''email'', JStr (email u)),
      (''full_name'', JStr (full_name u)),
      (''is_active'', JBool (is_active u)),
      (''created_at'', JInt (created_at_user u))]"

fun status_of :: "error \<Rightarrow> nat" where
  "status_of (HTTPException code _) = code"
| "status_of ValidationError = 400"
| "status_of DuplicateEmail = 409"
| "status_of InvalidCredentials = 401"

fun detail_of :: "error \<Rightarrow> string" where
  "detail_of (HTTPException _ detail) = detail"
| "detail_of ValidationError = ''ValidationError''"
| "detail_of DuplicateEmail = ''DuplicateEmail''"
| "detail_of InvalidCredentials = ''InvalidCredentials''"

definition register_route ::
  "CryptContext \<Rightarrow> db \<Rightarrow> UserCreate \<Rightarrow> string \<Rightarrow> datetime \<Rightarrow> (nat \<times> body) \<times> db" where
  "register_route ctx d user_in salt now =
     (case register ctx d user_in salt now of
        (Inl e, d') \<Rightarrow> ((status_of e, [(''detail'', JStr (detail_of e))]), d')
      | (Inr user, d') \<Rightarrow> ((201, user_response user), d'))"

section \<open>Sample data\<close>

definition alice :: User where
  "alice = \<lparr>id_user = 1, email = ''a@x.com'', full_name = ''Alice'',
            hashed_password = ''na$321drowssap'', is_active = True, created_at_user = 5\<rparr>"

definition bob :: User where
  "bob = \<lparr>id_user = 2, email = ''b@x.com'', full_name = ''Bob'',
          hashed_password = ''cl$terces'', is_active = True, created_at_user = 6\<rparr>"

definition mk_todo :: "int \<Rightarrow> int \<Rightarrow> string \<Rightarrow> datetime \<Rightarrow> Todo" where
  "mk_todo i owner ttl at =
     \<lparr>id_todo = i, user_id = owner, title = ttl, completed = False, created_at_todo = at\<rparr>"

definition db_sample :: db where
  "db_sample = \<lparr>users = [alice, bob],
                todos = [mk_todo 1 1 ''milk'' 10, mk_todo 2 2 ''bread'' 11,
                         mk_todo 3 1 ''eggs'' 12]\<rparr>"


definition db_unordered :: db where
  "db_unordered = \<lparr>users = [alice],
                   todos = [mk_todo 1 1 ''late'' 20, mk_todo 2 1 ''early'' 10]\<rparr>"

definition many_todos :: "nat \<Rightarrow> db" where
  "many_todos n = \<lparr>users = [alice],
                    todos = map (\<lambda>i. mk_todo (int i) 1 ''task'' (int i)) [1..<Suc n]\<rparr>"

definition db_empty :: db where
  "db_empty = \<lparr>users = [], todos = []\<rparr>"

definition cfg_sample :: settings where
  "cfg_sample = \<lparr>SECRET_KEY = ''s3cret'', ALGORITHM = (\<lambda>key payload. key @ concat (map fst payload))\<rparr>"

definition tok_sample :: token where
  "tok_sample = create_access_token cfg_sample [(''sub'', Str ''1'')] default_expires_delta 100"

text \<open>One \<open>get_user_by_id\<close> among many: the first row of the users table with the given id.\<close>

definition lookup_sample :: "claim_value \<Rightarrow> db \<Rightarrow> User option \<times> db" where
  "lookup_sample subject d = (find (\<lambda>u. Str (str (id_user u)) = subject) (users d), d)"

definition ctx_sample :: CryptContext where
  "ctx_sample = \<lparr>pwd_hash = (\<lambda>salt pw. salt @ ''$'' @ rev pw),
                 pwd_verify = (\<lambda>pw h. dropWhile (\<lambda>c. c \<noteq> CHR ''$'') h = ''$'' @ rev pw)\<rparr>"

definition carol_in :: UserCreate where
  "carol_in = \<lparr>email_in = ''carol@x.com'', password_in = ''password123'',
               full_name_in = ''Carol''\<rparr>"

definition carol :: User where
  "carol = \<lparr>id_user = 3, email = ''carol@x.com'', full_name = ''Carol'',
            hashed_password = ''zz$321drowssap'', is_active = True, created_at_user = 77\<rparr>"

definition db_carol :: db where
  "db_carol = db_sample\<lparr>users := [alice, bob, carol]\<rparr>"

section \<open>Listing: ownership\<close>

lemma set_limit_rows: "set (limit_rows n xs) \<subseteq> set xs"
  by (auto simp: limit_rows_def dest: in_set_takeD)

lemma set_offset_rows: "set (offset_rows n xs) \<subseteq> set xs"
  by (auto simp: offset_rows_def dest: in_set_dropD)

lemma list_todos_subset:
  "set (list_todos d u skip limit) \<subseteq> {t \<in> set (todos d). user_id t = id_user u}"
proof -
  have "set (list_todos d u skip limit) \<subseteq> set (filter (\<lambda>t. user_id t = id_user u) (todos d))"
    unfolding list_todos_def
    by (rule subset_trans [OF set_limit_rows set_offset_rows])
  then show ?thesis by auto
qed

lemma limit_rows_prefix: "\<exists>post. xs = limit_rows n xs @ post"
proof (cases "n < 0")
  case True
  then show ?thesis by (simp add: limit_rows_def)
next
  case False
  have "xs = take (nat n) xs @ drop (nat n) xs" by simp
  with False show ?thesis unfolding limit_rows_def by (simp del: append_take_drop_id) blast
qed

lemma list_todos_page:
  "\<exists>pre post. filter (\<lambda>t. user_id t = id_user u) (todos d) = pre @ list_todos d u skip limit @ post
     \<and> length pre = min (nat skip) (length (filter (\<lambda>t. user_id t = id_user u) (todos d)))"
proof -
  let ?own = "filter (\<lambda>t. user_id t = id_user u) (todos d)"
  obtain post where p: "offset_rows skip ?own = limit_rows limit (offset_rows skip ?own) @ post"
    using limit_rows_prefix by blast
  have "?own = take (nat skip) ?own @ offset_rows skip ?own"
    by (simp add: offset_rows_def)
  with p have "?own = take (nat skip) ?own @ list_todos d u skip limit @ post"
    by (simp add: list_todos_def)
  moreover have "length (take (nat skip) ?own) = min (nat skip) (length ?own)"
    by simp
  ultimately show ?thesis by blast
qed

lemma list_todos_length:
  "length (list_todos d u skip limit) =
     (if limit < 0 then length (filter (\<lambda>t. user_id t = id_user u) (todos d)) - nat skip
      else min (nat limit) (length (filter (\<lambda>t. user_id t = id_user u) (todos d)) - nat skip))"
  by (simp add: list_todos_def limit_rows_def offset_rows_def min.commute)

lemma list_todos_all:
  assumes "skip \<le> 0"
    and "limit < 0 \<or> int (length (filter (\<lambda>t. user_id t = id_user u) (todos d))) \<le> limit"
  shows "list_todos d u skip limit = filter (\<lambda>t. user_id t = id_user u) (todos d)"
  using assms by (auto simp: list_todos_def limit_rows_def offset_rows_def)

lemma create_todo_listed:
  assumes "skip \<le> 0"
    and "limit < 0 \<or> int (length (filter (\<lambda>t. user_id t = id_user u) (todos d))) < limit"
  shows "fst (create_todo d u todo_in now)
           \<in> set (list_todos (snd (create_todo d u todo_in now)) u skip limit)"
proof -
  let ?r = "create_todo d u todo_in now"
  let ?own = "filter (\<lambda>t. user_id t = id_user u) (todos d)"
  have own': "filter (\<lambda>t. user_id t = id_user u) (todos (snd ?r)) = ?own @ [fst ?r]"
    by (simp add: create_todo_def Let_def)
  from assms(2)
  have "limit < 0 \<or> int (length (filter (\<lambda>t. user_id t = id_user u) (todos (snd ?r)))) \<le> limit"
    unfolding own' by auto
  from list_todos_all [OF assms(1) this]
  have "list_todos (snd ?r) u skip limit = ?own @ [fst ?r]"
    unfolding own' .
  then show ?thesis by simp
qed

text \<open>
  C1. Every Todo that \<open>list_todos\<close> returns for a user is owned by that user, and a Todo that
  another user creates does not appear in it. The result is exactly a page of the user's Todos:
  the Todos of the table whose owner is the user, in table order, are the \<open>skip\<close> rows left out
  in front (all of them, when there are fewer), then the result, then a rest; and the result has
  exactly \<open>limit\<close> rows, or as many as are left after the offset when those are fewer or when
  \<open>limit\<close> is negative. With no offset and a limit that leaves room, the result is all of the
  user's Todos, and a Todo the user creates is in it.
\<close>

theorem list_todos_only_owner:
  "(\<forall>t \<in> set (list_todos d u skip limit). user_id t = id_user u)
   \<and> (\<forall>v todo_in now. id_user v \<noteq> id_user u \<longrightarrow>
        fst (create_todo d v todo_in now)
          \<notin> set (list_todos (snd (create_todo d v todo_in now)) u skip limit))
   \<and> (\<exists>pre post.
        filter (\<lambda>t. user_id t = id_user u) (todos d) = pre @ list_todos d u skip limit @ post
        \<and> length pre = min (nat skip) (length (filter (\<lambda>t. user_id t = id_user u) (todos d)))
        \<and> length (list_todos d u skip limit) =
            (if limit < 0
             then length (filter (\<lambda>t. user_id t = id_user u) (todos d)) - nat skip
             else min (nat limit)
                    (length (filter (\<lambda>t. user_id t = id_user u) (todos d)) - nat skip)))
   \<and> (skip \<le> 0
        \<and> (limit < 0 \<or> int (length (filter (\<lambda>t. user_id t = id_user u) (todos d))) \<le> limit)
      \<longrightarrow> list_todos d u skip limit = filter (\<lambda>t. user_id t = id_user u) (todos d))
   \<and> (\<forall>todo_in now.
        skip \<le> 0
        \<and> (limit < 0 \<or> int (length (filter (\<lambda>t. user_id t = id_user u) (todos d))) < limit)
      \<longrightarrow> fst (create_todo d u todo_in now)
            \<in> set (list_todos (snd (create_todo d u todo_in now)) u skip limit))"
proof (intro conjI allI impI)
  show "\<forall>t \<in> set (list_todos d u skip limit). user_id t = id_user u"
    using list_todos_subset [of d u skip limit] by auto
next
  fix v :: User and todo_in :: TodoCreate and now :: datetime
  assume neq: "id_user v \<noteq> id_user u"
  let ?r = "create_todo d v todo_in now"
  have "user_id (fst ?r) = id_user v"
    by (simp add: create_todo_def Let_def)
  moreover have "\<forall>t \<in> set (list_todos (snd ?r) u skip limit). user_id t = id_user u"
    using list_todos_subset [of "snd ?r" u skip limit] by auto
  ultimately show "fst ?r \<notin> set (list_todos (snd ?r) u skip limit)"
    using neq by auto
next
  from list_todos_page [of u d skip limit] obtain pre post where
    "filter (\<lambda>t. user_id t = id_user u) (todos d) = pre @ list_todos d u skip limit @ post"
    and "length pre = min (nat skip) (length (filter (\<lambda>t. user_id t = id_user u) (todos d)))"
    by blast
  with list_todos_length [of d u skip limit]
  show "\<exists>pre post.
        filter (\<lambda>t. user_id t = id_user u) (todos d) = pre @ list_todos d u skip limit @ post
        \<and> length pre = min (nat skip) (length (filter (\<lambda>t. user_id t = id_user u) (todos d)))
        \<and> length (list_todos d u skip limit) =
            (if limit < 0
             then length (filter (\<lambda>t. user_id t = id_user u) (todos d)) - nat skip
             else min (nat limit)
                    (length (filter (\<lambda>t. user_id t = id_user u) (todos d)) - nat skip))"
    by blast
next
  assume "skip \<le> 0
        \<and> (limit < 0 \<or> int (length (filter (\<lambda>t. user_id t = id_user u) (todos d))) \<le> limit)"
  then show "list_todos d u skip limit = filter (\<lambda>t. user_id t = id_user u) (todos d)"
    using list_todos_all [of skip limit u d] by blast
next
  fix todo_in :: TodoCreate and now :: datetime
  assume "skip \<le> 0
        \<and> (limit < 0 \<or> int (length (filter (\<lambda>t. user_id t = id_user u) (todos d))) < limit)"
  then show "fst (create_todo d u todo_in now)
            \<in> set (list_todos (snd (create_todo d u todo_in now)) u skip limit)"
    using create_todo_listed [of skip limit u d todo_in now] by blast
qed

theorem list_todos_only_owner_witness:
  "list_todos db_sample alice 0 100 = [mk_todo 1 1 ''milk'' 10, mk_todo 3 1 ''eggs'' 12]
   \<and> map user_id (list_todos db_sample alice 0 100) = [1, 1]
   \<and> filter (\<lambda>t. user_id t = id_user alice) (todos db_sample)
       = [mk_todo 1 1 ''milk'' 10, mk_todo 3 1 ''eggs'' 12]
   \<and> id_user bob \<noteq> id_user alice
   \<and> fst (create_todo db_sample bob \<lparr>title_in = ''tea''\<rparr> 20)
       \<notin> set (list_todos (snd (create_todo db_sample bob \<lparr>title_in = ''tea''\<rparr> 20)) alice 0 100)
   \<and> fst (create_todo db_sample alice \<lparr>title_in = ''tea''\<rparr> 20)
       \<in> set (list_todos (snd (create_todo db_sample alice \<lparr>title_in = ''tea''\<rparr> 20)) alice 0 100)"
proof -
  have ids: "id_user bob \<noteq> id_user alice"
    by (simp add: alice_def bob_def)
  have own: "filter (\<lambda>t. user_id t = id_user alice) (todos db_sample)
       = [mk_todo 1 1 ''milk'' 10, mk_todo 3 1 ''eggs'' 12]"
    by (simp add: db_sample_def alice_def mk_todo_def)
  have room: "(0::int) \<le> 0
        \<and> ((100::int) < 0
           \<or> int (length (filter (\<lambda>t. user_id t = id_user alice) (todos db_sample))) < 100)"
    by (simp add: own)
  then have room': "(0::int) \<le> 0
        \<and> ((100::int) < 0
           \<or> int (length (filter (\<lambda>t. user_id t = id_user alice) (todos db_sample))) \<le> 100)"
    by linarith
  from list_todos_only_owner [of db_sample alice 0 100]
  have owned: "\<forall>t \<in> set (list_todos db_sample alice 0 100). user_id t = id_user alice"
    and others: "\<forall>v todo_in now. id_user v \<noteq> id_user alice \<longrightarrow>
        fst (create_todo db_sample v todo_in now)
          \<notin> set (list_todos (snd (create_todo db_sample v todo_in now)) alice 0 100)"
    and whole: "(0::int) \<le> 0
        \<and> ((100::int) < 0
           \<or> int (length (filter (\<lambda>t. user_id t = id_user alice) (todos db_sample))) \<le> 100)
      \<longrightarrow> list_todos db_sample alice 0 100
            = filter (\<lambda>t. user_id t = id_user alice) (todos db_sample)"
    and mine: "\<forall>todo_in now.
        (0::int) \<le> 0
        \<and> ((100::int) < 0
           \<or> int (length (filter (\<lambda>t. user_id t = id_user alice) (todos db_sample))) < 100)
      \<longrightarrow> fst (create_todo db_sample alice todo_in now)
            \<in> set (list_todos (snd (create_todo db_sample alice todo_in now)) alice 0 100)"
    by blast+
  from whole room' own
  have res: "list_todos db_sample alice 0 100 = [mk_todo 1 1 ''milk'' 10, mk_todo 3 1 ''eggs'' 12]"
    by (simp only:)
  from owned res have "map user_id (list_todos db_sample alice 0 100) = [1, 1]"
    by (simp add: alice_def)
  moreover from others ids
  have "fst (create_todo db_sample bob \<lparr>title_in = ''tea''\<rparr> 20)
       \<notin> set (list_todos (snd (create_todo db_sample bob \<lparr>title_in = ''tea''\<rparr> 20)) alice 0 100)"
    by blast
  moreover from mine room
  have "fst (create_todo db_sample alice \<lparr>title_in = ''tea''\<rparr> 20)
       \<in> set (list_todos (snd (create_todo db_sample alice \<lparr>title_in = ''tea''\<rparr> 20)) alice 0 100)"
    by blast
  ultimately show ?thesis using ids own res by blast
qed

section \<open>Listing: order\<close>

lemma sorted_limit_rows: "sorted (map f xs) \<Longrightarrow> sorted (map f (limit_rows n xs))"
  by (simp add: limit_rows_def flip: take_map)

lemma sorted_offset_rows: "sorted (map f xs) \<Longrightarrow> sorted (map f (offset_rows n xs))"
  by (simp add: offset_rows_def flip: drop_map)

lemma sorted_filter_rows: "sorted (map f xs) \<Longrightarrow> sorted (map f (filter P xs))"
  by (rule sorted_filter)

text \<open>
  A table whose scan order is not the order of creation: the Todo created at 20 is stored
  before the one created at 10. It is also what two calls of \<open>create_todo\<close> leave behind when the
  wall clock (\<open>datetime.utcnow\<close>) is set back between them.
\<close>

lemma db_unordered_reached:
  "snd (create_todo (snd (create_todo \<lparr>users = [alice], todos = []\<rparr> alice \<lparr>title_in = ''late''\<rparr> 20))
         alice \<lparr>title_in = ''early''\<rparr> 10) = db_unordered"
  by (simp add: create_todo_def Let_def next_id_def db_unordered_def mk_todo_def alice_def)

text \<open>
  C2, as stated, fails: \<open>list_todos\<close> has no \<open>ORDER BY\<close>. On \<open>db_unordered\<close>, which holds two Todos
  of the user, the result is not sorted by creation time, and \<open>offset = 0, limit = 1\<close> returns
  the Todo created later.
\<close>

theorem list_todos_sorted_counterexample:
  "\<not> sorted (map created_at_todo (list_todos db_unordered alice 0 100))
   \<and> list_todos db_unordered alice 0 1 = [mk_todo 1 1 ''late'' 20]
   \<and> mk_todo 2 1 ''early'' 10 \<in> set (todos db_unordered)
   \<and> created_at_todo (mk_todo 2 1 ''early'' 10) < created_at_todo (mk_todo 1 1 ''late'' 20)"
  by (simp add: list_todos_def limit_rows_def offset_rows_def db_unordered_def alice_def
      mk_todo_def)

text \<open>
  C2, amended. \<open>list_todos\<close> returns the user's Todos in the table's own order: whenever the rows
  of the table are in ascending order of creation time, so is the result; and on a store holding
  two Todos of the user, \<open>offset = 0, limit = 1\<close> returns exactly one Todo, the first of the two
  in table order, which is the earliest-created one when the table is in creation order.
\<close>

theorem list_todos_table_order:
  "(sorted (map created_at_todo (todos d)) \<longrightarrow>
      sorted (map created_at_todo (list_todos d u skip limit)))
   \<and> (filter (\<lambda>t. user_id t = id_user u) (todos d) = [a, b] \<longrightarrow>
        list_todos d u 0 1 = [a]
        \<and> (sorted (map created_at_todo (todos d)) \<longrightarrow> created_at_todo a \<le> created_at_todo b))"
proof (intro conjI impI)
  assume "sorted (map created_at_todo (todos d))"
  then show "sorted (map created_at_todo (list_todos d u skip limit))"
    unfolding list_todos_def
    by (intro sorted_limit_rows sorted_offset_rows sorted_filter_rows)
next
  assume "filter (\<lambda>t. user_id t = id_user u) (todos d) = [a, b]"
  then show "list_todos d u 0 1 = [a]"
    by (simp add: list_todos_def limit_rows_def offset_rows_def)
next
  assume two: "filter (\<lambda>t. user_id t = id_user u) (todos d) = [a, b]"
    and srt: "sorted (map created_at_todo (todos d))"
  from srt have "sorted (map created_at_todo (filter (\<lambda>t. user_id t = id_user u) (todos d)))"
    by (rule sorted_filter_rows)
  with two show "created_at_todo a \<le> created_at_todo b" by simp
qed

theorem list_todos_table_order_witness:
  "sorted (map created_at_todo (todos db_sample))
   \<and> filter (\<lambda>t. user_id t = id_user alice) (todos db_sample)
       = [mk_todo 1 1 ''milk'' 10, mk_todo 3 1 ''eggs'' 12]
   \<and> sorted (map created_at_todo (list_todos db_sample alice 0 100))
   \<and> list_todos db_sample alice 0 1 = [mk_todo 1 1 ''milk'' 10]
   \<and> created_at_todo (mk_todo 1 1 ''milk'' 10) \<le> created_at_todo (mk_todo 3 1 ''eggs'' 12)"
proof -
  have srt: "sorted (map created_at_todo (todos db_sample))"
    by (simp add: db_sample_def mk_todo_def)
  have two: "filter (\<lambda>t. user_id t = id_user alice) (todos db_sample)
       = [mk_todo 1 1 ''milk'' 10, mk_todo 3 1 ''eggs'' 12]"
    by (simp add: db_sample_def mk_todo_def alice_def)
  show ?thesis
    using list_todos_table_order [of db_sample alice 0 100 "mk_todo 1 1 ''milk'' 10"
        "mk_todo 3 1 ''eggs'' 12"] srt two
    by blast
qed

section \<open>Listing: size of a page\<close>

lemma list_todos_many: "length (list_todos (many_todos n) alice 0 (int n)) = n"
proof -
  have "filter (\<lambda>t. user_id t = id_user alice) (todos (many_todos n)) = todos (many_todos n)"
    by (simp add: many_todos_def mk_todo_def alice_def)
  moreover have "length (todos (many_todos n)) = n"
    by (simp add: many_todos_def)
  ultimately show ?thesis
    by (simp add: list_todos_def limit_rows_def offset_rows_def)
qed

text \<open>
  C3, as stated, fails: no maximum is applied to \<open>limit\<close>. The sources configure no pagination
  maximum; the only number they hold is the default \<open>limit = 100\<close>. With 101 Todos of one user
  in the store and \<open>limit = 101\<close> the route returns 101 Todos, more than 100; by
  \<open>list_todos_many\<close> the same happens for any other maximum \<open>n\<close>, with \<open>n + 1\<close> Todos and
  \<open>limit = n + 1\<close>.
\<close>

theorem list_todos_cap_counterexample:
  "\<not> length (get_todos (many_todos 101) alice None (Some 101)) \<le> 100"
  using list_todos_many [of 101] by (simp add: get_todos_def)

text \<open>
  C3, amended. The number of Todos returned never exceeds the \<open>limit\<close> the caller passes, when
  that is not negative, and never exceeds 100 when the caller passes none; it also never exceeds
  the number of Todos the user has.
\<close>

theorem list_todos_length_le_limit:
  "(0 \<le> limit \<longrightarrow> length (list_todos d u skip limit) \<le> nat limit)
   \<and> length (get_todos d u sk None) \<le> 100
   \<and> length (list_todos d u skip limit)
        \<le> length (filter (\<lambda>t. user_id t = id_user u) (todos d))"
  by (auto simp add: get_todos_def list_todos_def limit_rows_def offset_rows_def)

theorem list_todos_length_le_limit_witness:
  "(0::int) \<le> 2 \<and> length (list_todos (many_todos 5) alice 1 2) \<le> nat 2
   \<and> length (list_todos (many_todos 5) alice 1 2) = 2"
proof -
  have "length (list_todos (many_todos 5) alice 1 2) = 2"
    by (simp add: list_todos_def limit_rows_def offset_rows_def many_todos_def mk_todo_def
        alice_def)
  then show ?thesis
    using list_todos_length_le_limit [of 2 "many_todos 5" alice 1] by simp
qed

section \<open>Token verification and the store\<close>

lemma str_1: "str 1 = ''1''"
  by (simp add: str_def digit_char_def str_nat.simps [of "Suc 0"])

lemma tok_sample_eq: "tok_sample = Jwt [(''sub'', Str ''1''), (''exp'', Num 1000)] ''s3cretsubexp''"
  by (simp add: tok_sample_def create_access_token_def jwt_encode_def cfg_sample_def
      default_expires_delta_def)

lemma verify_store: "snd (verify cfg tok now s) = s"
  by (simp add: verify_def split: sum.splits option.splits JWTError.splits)

lemma verify_result: "fst (verify cfg tok now s) = fst (verify cfg tok now s')"
  by (simp add: verify_def split: sum.splits option.splits JWTError.splits)

lemma verify_error:
  "fst (verify cfg tok now s) = Inl e \<Longrightarrow> e = HTTPException 401 ''Invalid token''"
  by (auto simp: verify_def split: sum.splits option.splits JWTError.splits)

lemma get_current_user_factors:
  "get_current_user cfg get_user_by_id tok now s =
     (case fst (verify cfg tok now s) of
        Inl e \<Rightarrow> (Inl e, s)
      | Inr subject \<Rightarrow>
          (case get_user_by_id subject s of
             (None, s') \<Rightarrow> (Inl (HTTPException 401 ''User not found''), s')
           | (Some user, s') \<Rightarrow> (Inr user, s')))"
  by (simp add: get_current_user_def verify_def split: sum.splits option.splits JWTError.splits)

lemma verify_tok_sample:
  "verify cfg_sample tok_sample now s =
     (if 1000 < now then Inl (HTTPException 401 ''Invalid token'') else Inr (Str ''1''), s)"
  by (simp add: verify_def tok_sample_eq jwt_decode_def validate_exp_def validate_sub_def
      cfg_sample_def)

text \<open>
  C4. \<open>verify\<close>, the token check of \<open>get_current_user\<close>, is a function of the token, the signing
  secret and the clock reading against which the expiry is checked; it neither reads nor writes
  the store. Run in any two store states it gives the same result, and it returns the state it
  was run in. Within \<open>get_current_user\<close> the same holds whatever \<open>get_user_by_id\<close> is: a token
  that \<open>verify\<close> refuses is refused with 401 \<open>Invalid token\<close> and the store as it was, and for a
  token that \<open>verify\<close> accepts the one access to the store is the call of \<open>get_user_by_id\<close> on the
  verified subject.
\<close>

theorem verify_pure:
  "verify cfg tok now s = (fst (verify cfg tok now s'), s)
   \<and> (\<forall>e. fst (verify cfg tok now s) = Inl e \<longrightarrow>
          e = HTTPException 401 ''Invalid token''
          \<and> (\<forall>get_user_by_id. get_current_user cfg get_user_by_id tok now s = (Inl e, s)))
   \<and> (\<forall>subject. fst (verify cfg tok now s) = Inr subject \<longrightarrow>
          (\<forall>get_user_by_id. get_current_user cfg get_user_by_id tok now s =
             (case get_user_by_id subject s of
                (None, s1) \<Rightarrow> (Inl (HTTPException 401 ''User not found''), s1)
              | (Some user, s1) \<Rightarrow> (Inr user, s1))))"
proof (intro conjI allI impI)
  show "verify cfg tok now s = (fst (verify cfg tok now s'), s)"
    using verify_store [of cfg tok now s] verify_result [of cfg tok now s s']
    by (simp add: prod_eq_iff)
next
  fix e
  assume "fst (verify cfg tok now s) = Inl e"
  then show "e = HTTPException 401 ''Invalid token''"
    by (rule verify_error)
next
  fix e and get_user_by_id :: "claim_value \<Rightarrow> 'a \<Rightarrow> User option \<times> 'a"
  assume "fst (verify cfg tok now s) = Inl e"
  then show "get_current_user cfg get_user_by_id tok now s = (Inl e, s)"
    by (simp add: get_current_user_factors)
next
  fix subject and get_user_by_id :: "claim_value \<Rightarrow> 'a \<Rightarrow> User option \<times> 'a"
  assume "fst (verify cfg tok now s) = Inr subject"
  then show "get_current_user cfg get_user_by_id tok now s =
             (case get_user_by_id subject s of
                (None, s1) \<Rightarrow> (Inl (HTTPException 401 ''User not found''), s1)
              | (Some user, s1) \<Rightarrow> (Inr user, s1))"
    by (simp add: get_current_user_factors)
qed

theorem verify_pure_witness:
  "verify cfg_sample tok_sample 200 db_sample = (Inr (Str ''1''), db_sample)
   \<and> verify cfg_sample tok_sample 200 db_empty = (Inr (Str ''1''), db_empty)
   \<and> get_current_user cfg_sample lookup_sample tok_sample 200 db_sample = (Inr alice, db_sample)
   \<and> verify cfg_sample tok_sample 2000 db_sample
       = (Inl (HTTPException 401 ''Invalid token''), db_sample)
   \<and> get_current_user cfg_sample lookup_sample tok_sample 2000 db_sample
       = (Inl (HTTPException 401 ''Invalid token''), db_sample)"
proof -
  have ok: "fst (verify cfg_sample tok_sample 200 db_empty) = Inr (Str ''1'')"
    and late: "fst (verify cfg_sample tok_sample 2000 db_empty)
                 = Inl (HTTPException 401 ''Invalid token'')"
    by (simp_all add: verify_tok_sample)
  have look: "lookup_sample (Str ''1'') db_sample = (Some alice, db_sample)"
    by (simp add: lookup_sample_def db_sample_def alice_def str_1)
  from verify_pure [of cfg_sample tok_sample 200 db_sample db_empty]
  have v1: "verify cfg_sample tok_sample 200 db_sample
              = (fst (verify cfg_sample tok_sample 200 db_empty), db_sample)"
    and g1: "\<forall>subject. fst (verify cfg_sample tok_sample 200 db_sample) = Inr subject \<longrightarrow>
          (\<forall>get_user_by_id. get_current_user cfg_sample get_user_by_id tok_sample 200 db_sample =
             (case get_user_by_id subject db_sample of
                (None, s1) \<Rightarrow> (Inl (HTTPException 401 ''User not found''), s1)
              | (Some user, s1) \<Rightarrow> (Inr user, s1)))"
    by blast+
  from v1 ok have a: "verify cfg_sample tok_sample 200 db_sample = (Inr (Str ''1''), db_sample)"
    by simp
  with g1 have "get_current_user cfg_sample lookup_sample tok_sample 200 db_sample =
             (case lookup_sample (Str ''1'') db_sample of
                (None, s1) \<Rightarrow> (Inl (HTTPException 401 ''User not found''), s1)
              | (Some user, s1) \<Rightarrow> (Inr user, s1))"
    by simp
  with look
  have b: "get_current_user cfg_sample lookup_sample tok_sample 200 db_sample = (Inr alice, db_sample)"
    by simp
  from verify_pure [of cfg_sample tok_sample 2000 db_sample db_empty]
  have v2: "verify cfg_sample tok_sample 2000 db_sample
              = (fst (verify cfg_sample tok_sample 2000 db_empty), db_sample)"
    and g2: "\<forall>e. fst (verify cfg_sample tok_sample 2000 db_sample) = Inl e \<longrightarrow>
          e = HTTPException 401 ''Invalid token''
          \<and> (\<forall>get_user_by_id.
                get_current_user cfg_sample get_user_by_id tok_sample 2000 db_sample = (Inl e, db_sample))"
    by blast+
  from v2 late
  have c: "verify cfg_sample tok_sample 2000 db_sample
             = (Inl (HTTPException 401 ''Invalid token''), db_sample)"
    by simp
  with g2
  have d: "get_current_user cfg_sample lookup_sample tok_sample 2000 db_sample
       = (Inl (HTTPException 401 ''Invalid token''), db_sample)"
    by simp
  have e: "verify cfg_sample tok_sample 200 db_empty = (Inr (Str ''1''), db_empty)"
    by (simp add: verify_tok_sample)
  from a e b c d show ?thesis by blast
qed

section \<open>Registration\<close>

lemma register_Inr:
  assumes "register ctx d user_in salt now = (Inr u, d1)"
  shows "u = \<lparr>id_user = next_id (map id_user (users d)),
              email = email_in user_in,
              full_name = full_name_in user_in,
              hashed_password = pwd_hash ctx salt (password_in user_in),
              is_active = True,
              created_at_user = now\<rparr>"
    and "d1 = d\<lparr>users := users d @ [u]\<rparr>"
    and "\<not> list_ex (\<lambda>x. lower (email x) = lower (email_in user_in)) (users d)"
  using assms by (auto simp: register_def Let_def split: if_splits)

lemma register_duplicate:
  assumes "u \<in> set (users d)" and "lower (email_in user_in) = lower (email u)"
  shows "register ctx d user_in salt now = (Inl DuplicateEmail, d)"
proof -
  from assms have "list_ex (\<lambda>x. lower (email x) = lower (email_in user_in)) (users d)"
    unfolding list_ex_iff by (intro bexI [of _ u]) simp_all
  then show ?thesis by (simp add: register_def)
qed

text \<open>
  No write of the model removes a user row: a registered user is in the users table of every
  later state.
\<close>

lemma register_keeps_users:
  "u \<in> set (users d) \<Longrightarrow> u \<in> set (users (snd (register ctx d user_in salt now)))"
  by (simp add: register_def Let_def)

lemma create_keeps_users: "users (snd (create d user ttl now)) = users d"
  by (simp add: create_def create_todo_def Let_def split: sum.splits)

text \<open>
  C5. Once a user has been registered with an email, a registration with an email that equals
  it up to case fails with \<open>DuplicateEmail\<close>, answered with 409, in the state the registration
  left and in every later state that still holds the user; the failed call leaves the store as
  it was.
\<close>

theorem register_duplicate_email:
  assumes "register ctx d user_in salt now = (Inr u, d1)"
    and "lower (email_in user_in') = lower (email_in user_in)"
  shows "u \<in> set (users d1)
    \<and> (\<forall>d2. u \<in> set (users d2) \<longrightarrow>
          register ctx' d2 user_in' salt' now' = (Inl DuplicateEmail, d2)
          \<and> fst (fst (register_route ctx' d2 user_in' salt' now')) = 409
          \<and> snd (register_route ctx' d2 user_in' salt' now') = d2)"
proof (intro conjI allI impI)
  show "u \<in> set (users d1)"
    using register_Inr(2) [OF assms(1)] by simp
next
  fix d2 :: db
  assume mem: "u \<in> set (users d2)"
  have "email u = email_in user_in"
    using register_Inr(1) [OF assms(1)] by simp
  with assms(2) have "lower (email_in user_in') = lower (email u)"
    by simp
  with mem have dup: "register ctx' d2 user_in' salt' now' = (Inl DuplicateEmail, d2)"
    by (rule register_duplicate)
  then show "register ctx' d2 user_in' salt' now' = (Inl DuplicateEmail, d2)" .
  from dup show "fst (fst (register_route ctx' d2 user_in' salt' now')) = 409"
    by (simp add: register_route_def)
  from dup show "snd (register_route ctx' d2 user_in' salt' now') = d2"
    by (simp add: register_route_def)
qed

lemma register_carol:
  "register ctx_sample db_sample carol_in ''zz'' 77 = (Inr carol, db_carol)"
  by (simp add: register_def Let_def db_sample_def carol_in_def carol_def db_carol_def
      ctx_sample_def alice_def bob_def lower_def lower_char_def next_id_def)

theorem register_duplicate_email_witness:
  "register ctx_sample db_sample carol_in ''zz'' 77 = (Inr carol, db_carol)
   \<and> lower (email_in (carol_in\<lparr>email_in := ''Carol@X.com''\<rparr>)) = lower (email_in carol_in)
   \<and> carol \<in> set (users db_carol)
   \<and> register ctx_sample db_carol (carol_in\<lparr>email_in := ''Carol@X.com''\<rparr>) ''yy'' 78
       = (Inl DuplicateEmail, db_carol)
   \<and> fst (fst (register_route ctx_sample db_carol (carol_in\<lparr>email_in := ''Carol@X.com''\<rparr>) ''yy'' 78))
       = 409"
proof -
  have low: "lower (email_in (carol_in\<lparr>email_in := ''Carol@X.com''\<rparr>)) = lower (email_in carol_in)"
    by (simp add: carol_in_def lower_def lower_char_def)
  from register_duplicate_email [OF register_carol low, of ctx_sample "''yy''" 78]
  show ?thesis using register_carol low by blast
qed

text \<open>
  C7. A successful registration is answered with 201 and the representation of the stored user:
  its id, email, full name, active flag and creation time. The representation has no
  \<open>hashed_password\<close> field, and it is the same whatever the stored hash is.
\<close>

theorem register_route_no_hash:
  assumes "register ctx d user_in salt now = (Inr u, d1)"
  shows "fst (fst (register_route ctx d user_in salt now)) = 201
    \<and> snd (fst (register_route ctx d user_in salt now)) = user_response u
    \<and> hashed_password u = pwd_hash ctx salt (password_in user_in)
    \<and> user_response u =
         [(''id'', JInt (id_user u)), (''email'', JStr (email_in user_in)),
          (''full_name'', JStr (full_name_in user_in)), (''is_active'', JBool True),
          (''created_at'', JInt now)]
    \<and> ''hashed_password'' \<notin> fst ` set (user_response u)
    \<and> (\<forall>h. user_response (u\<lparr>hashed_password := h\<rparr>) = user_response u)"
proof -
  note u = register_Inr(1) [OF assms]
  have "fst (fst (register_route ctx d user_in salt now)) = 201"
    and "snd (fst (register_route ctx d user_in salt now)) = user_response u"
    using assms by (simp_all add: register_route_def)
  moreover have "hashed_password u = pwd_hash ctx salt (password_in user_in)"
    by (subst u) simp
  moreover have "user_response u =
         [(''id'', JInt (id_user u)), (''email'', JStr (email_in user_in)),
          (''full_name'', JStr (full_name_in user_in)), (''is_active'', JBool True),
          (''created_at'', JInt now)]"
    unfolding user_response_def by (subst (2 3 4 5) u) simp
  moreover have "''hashed_password'' \<notin> fst ` set (user_response u)"
    by (simp add: user_response_def)
  moreover have "\<forall>h. user_response (u\<lparr>hashed_password := h\<rparr>) = user_response u"
    by (simp add: user_response_def)
  ultimately show ?thesis by blast
qed

theorem register_route_no_hash_witness:
  "register ctx_sample db_sample carol_in ''zz'' 77 = (Inr carol, db_carol)
   \<and> register_route ctx_sample db_sample carol_in ''zz'' 77
       = ((201, [(''id'', JInt 3), (''email'', JStr ''carol@x.com''),
                 (''full_name'', JStr ''Carol''), (''is_active'', JBool True),
                 (''created_at'', JInt 77)]), db_carol)
   \<and> hashed_password carol = ''zz$321drowssap''"
proof -
  from register_route_no_hash [OF register_carol]
  have "fst (fst (register_route ctx_sample db_sample carol_in ''zz'' 77)) = 201"
    and "snd (fst (register_route ctx_sample db_sample carol_in ''zz'' 77)) = user_response carol"
    and "user_response carol =
         [(''id'', JInt (id_user carol)), (''email'', JStr (email_in carol_in)),
          (''full_name'', JStr (full_name_in carol_in)), (''is_active'', JBool True),
          (''created_at'', JInt 77)]"
    by blast+
  moreover have "snd (register_route ctx_sample db_sample carol_in ''zz'' 77) = db_carol"
    by (simp add: register_route_def register_carol)
  ultimately have "register_route ctx_sample db_sample carol_in ''zz'' 77
       = ((201, [(''id'', JInt (id_user carol)), (''email'', JStr (email_in carol_in)),
          (''full_name'', JStr (full_name_in carol_in)), (''is_active'', JBool True),
          (''created_at'', JInt 77)]), db_carol)"
    by (simp add: prod_eq_iff)
  then show ?thesis
    using register_carol by (simp add: carol_def carol_in_def)
qed

section \<open>Minting and checking a token\<close>

lemma create_access_token_sub:
  "create_access_token cfg [(''sub'', Str sb)] delta now
     = Jwt [(''sub'', Str sb), (''exp'', Num (now + delta))]
           (ALGORITHM cfg (SECRET_KEY cfg) [(''sub'', Str sb), (''exp'', Num (now + delta))])"
  by (simp add: create_access_token_def jwt_encode_def Let_def)

lemma verify_minted:
  "verify cfg (create_access_token cfg [(''sub'', Str sb)] delta now) t s
     = (if now + delta < t then Inl (HTTPException 401 ''Invalid token'') else Inr (Str sb), s)"
  by (simp add: verify_def create_access_token_sub jwt_decode_def validate_exp_def
      validate_sub_def)

lemma authenticate_Inr:
  assumes "authenticate cfg ctx d em password now = Inr tok"
  shows "\<exists>u \<in> set (users d). lower (email u) = lower em
           \<and> pwd_verify ctx password (hashed_password u)
           \<and> tok = create_access_token cfg [(''sub'', Str (str (id_user u)))]
                     default_expires_delta now"
  using assms
  by (auto simp: authenticate_def find_Some_iff split: option.splits if_splits)

text \<open>
  C6. A token minted by \<open>authenticate\<close> for a registered user carries that user's id as its
  subject and the issue time plus the fixed lifetime (15 minutes) as its expiry. At every time
  before the expiry \<open>verify\<close> accepts the token and returns that user id, and at every time after
  the expiry it refuses the token with 401 \<open>Invalid token\<close>, in every state of the store. So
  does \<open>get_current_user\<close> after the expiry, whatever \<open>get_user_by_id\<close> is; before the expiry it
  hands that user id to \<open>get_user_by_id\<close>.
\<close>

theorem authenticate_token_roundtrip:
  assumes "authenticate cfg ctx d em password now = Inr tok"
  shows "\<exists>u \<in> set (users d).
           lower (email u) = lower em
         \<and> map_of (claims_of tok) ''sub'' = Some (Str (str (id_user u)))
         \<and> map_of (claims_of tok) ''exp'' = Some (Num (now + default_expires_delta))
         \<and> (\<forall>t (s::'s). t < now + default_expires_delta \<longrightarrow>
               verify cfg tok t s = (Inr (Str (str (id_user u))), s))
         \<and> (\<forall>t (s::'s). now + default_expires_delta < t \<longrightarrow>
               verify cfg tok t s = (Inl (HTTPException 401 ''Invalid token''), s))
         \<and> (\<forall>t (s::'s) get_user_by_id. t < now + default_expires_delta \<longrightarrow>
               get_current_user cfg get_user_by_id tok t s =
                 (case get_user_by_id (Str (str (id_user u))) s of
                    (None, s1) \<Rightarrow> (Inl (HTTPException 401 ''User not found''), s1)
                  | (Some user, s1) \<Rightarrow> (Inr user, s1)))
         \<and> (\<forall>t (s::'s) get_user_by_id. now + default_expires_delta < t \<longrightarrow>
               get_current_user cfg get_user_by_id tok t s
                 = (Inl (HTTPException 401 ''Invalid token''), s))"
proof -
  from authenticate_Inr [OF assms] obtain u where
    u: "u \<in> set (users d)" and em: "lower (email u) = lower em"
    and tok: "tok = create_access_token cfg [(''sub'', Str (str (id_user u)))]
                      default_expires_delta now"
    by blast
  let ?exp = "now + default_expires_delta"
  have sub: "map_of (claims_of tok) ''sub'' = Some (Str (str (id_user u)))"
    and exp: "map_of (claims_of tok) ''exp'' = Some (Num ?exp)"
    by (simp_all add: tok create_access_token_sub)
  have before: "verify cfg tok t s = (Inr (Str (str (id_user u))), s)" if "t < ?exp" for t and s :: 's
    using that by (simp add: tok verify_minted)
  have after: "verify cfg tok t s = (Inl (HTTPException 401 ''Invalid token''), s)"
    if "?exp < t" for t and s :: 's
    using that by (simp add: tok verify_minted)
  have before': "get_current_user cfg get_user_by_id tok t s =
                 (case get_user_by_id (Str (str (id_user u))) s of
                    (None, s1) \<Rightarrow> (Inl (HTTPException 401 ''User not found''), s1)
                  | (Some user, s1) \<Rightarrow> (Inr user, s1))"
    if "t < ?exp" for t and s :: 's and get_user_by_id
    using before [OF that, of s] by (simp add: get_current_user_factors)
  have after': "get_current_user cfg get_user_by_id tok t s
                 = (Inl (HTTPException 401 ''Invalid token''), s)"
    if "?exp < t" for t and s :: 's and get_user_by_id
    using after [OF that, of s] by (simp add: get_current_user_factors)
  from u em sub exp before after before' after' show ?thesis by blast
qed

lemma authenticate_alice:
  "authenticate cfg_sample ctx_sample db_sample ''A@X.com'' ''password123'' 100 = Inr tok_sample"
  by (simp add: authenticate_def db_sample_def alice_def bob_def lower_def lower_char_def
      ctx_sample_def tok_sample_def str_1)

theorem authenticate_token_roundtrip_witness:
  "authenticate cfg_sample ctx_sample db_sample ''A@X.com'' ''password123'' 100 = Inr tok_sample
   \<and> map_of (claims_of tok_sample) ''sub'' = Some (Str ''1'')
   \<and> map_of (claims_of tok_sample) ''exp'' = Some (Num 1000)
   \<and> verify cfg_sample tok_sample 999 db_sample = (Inr (Str ''1''), db_sample)
   \<and> verify cfg_sample tok_sample 1001 db_sample
       = (Inl (HTTPException 401 ''Invalid token''), db_sample)
   \<and> get_current_user cfg_sample lookup_sample tok_sample 999 db_sample = (Inr alice, db_sample)
   \<and> get_current_user cfg_sample lookup_sample tok_sample 1001 db_sample
       = (Inl (HTTPException 401 ''Invalid token''), db_sample)"
proof -
  from authenticate_token_roundtrip [OF authenticate_alice, where ?'s = db] obtain u where
    "u \<in> set (users db_sample)"
    and sub: "map_of (claims_of tok_sample) ''sub'' = Some (Str (str (id_user u)))"
    and exp: "map_of (claims_of tok_sample) ''exp'' = Some (Num (100 + default_expires_delta))"
    and before: "\<forall>t (s::db). t < 100 + default_expires_delta \<longrightarrow>
               verify cfg_sample tok_sample t s = (Inr (Str (str (id_user u))), s)"
    and after: "\<forall>t (s::db). 100 + default_expires_delta < t \<longrightarrow>
               verify cfg_sample tok_sample t s = (Inl (HTTPException 401 ''Invalid token''), s)"
    and before': "\<forall>t (s::db) get_user_by_id. t < 100 + default_expires_delta \<longrightarrow>
               get_current_user cfg_sample get_user_by_id tok_sample t s =
                 (case get_user_by_id (Str (str (id_user u))) s of
                    (None, s1) \<Rightarrow> (Inl (HTTPException 401 ''User not found''), s1)
                  | (Some user, s1) \<Rightarrow> (Inr user, s1))"
    and after': "\<forall>t (s::db) get_user_by_id. 100 + default_expires_delta < t \<longrightarrow>
               get_current_user cfg_sample get_user_by_id tok_sample t s
                 = (Inl (HTTPException 401 ''Invalid token''), s)"
    by blast
  have id: "str (id_user u) = ''1''"
    using sub by (simp add: tok_sample_eq)
  have look: "lookup_sample (Str ''1'') db_sample = (Some alice, db_sample)"
    by (simp add: lookup_sample_def db_sample_def alice_def str_1)
  have t1: "(999::int) < 100 + default_expires_delta"
    and t2: "100 + default_expires_delta < (1001::int)"
    by (simp_all add: default_expires_delta_def)
  from before t1 id
  have a: "verify cfg_sample tok_sample 999 db_sample = (Inr (Str ''1''), db_sample)"
    by simp
  from after t2
  have b: "verify cfg_sample tok_sample 1001 db_sample
       = (Inl (HTTPException 401 ''Invalid token''), db_sample)"
    by simp
  from before' t1 id look
  have c: "get_current_user cfg_sample lookup_sample tok_sample 999 db_sample
             = (Inr alice, db_sample)"
    by simp
  from after' t2
  have d: "get_current_user cfg_sample lookup_sample tok_sample 1001 db_sample
       = (Inl (HTTPException 401 ''Invalid token''), db_sample)"
    by simp
  from sub id have e: "map_of (claims_of tok_sample) ''sub'' = Some (Str ''1'')"
    by simp
  from exp have f: "map_of (claims_of tok_sample) ''exp'' = Some (Num 1000)"
    by (simp add: default_expires_delta_def)
  from authenticate_alice a b c d e f show ?thesis by blast
qed

section \<open>Creating a Todo\<close>

lemma next_id_fresh: "next_id ids \<notin> set ids"
proof (cases "ids = []")
  case True
  then show ?thesis by simp
next
  case False
  show ?thesis
  proof
    assume "next_id ids \<in> set ids"
    then have "next_id ids \<le> Max (set ids)" by simp
    with False show False by (simp add: next_id_def)
  qed
qed

text \<open>
  C8. For every user and every store, \<open>create\<close> with an empty title fails with \<open>ValidationError\<close>
  and leaves the store as it was; with a non-empty title it succeeds and the store afterwards is
  the store before with one row more in the todos table: the returned Todo, owned by the user,
  with the given title and a fresh id.
\<close>

theorem create_empty_or_one:
  "create d user [] now = (Inl ValidationError, d)
   \<and> (ttl \<noteq> [] \<longrightarrow>
        (\<exists>todo. create d user ttl now = (Inr todo, d\<lparr>todos := todos d @ [todo]\<rparr>)
           \<and> user_id todo = id_user user \<and> title todo = ttl
           \<and> id_todo todo \<notin> set (map id_todo (todos d))))"
proof (intro conjI impI)
  show "create d user [] now = (Inl ValidationError, d)"
    by (simp add: create_def validate_TodoCreate_def)
next
  assume "ttl \<noteq> []"
  then show "\<exists>todo. create d user ttl now = (Inr todo, d\<lparr>todos := todos d @ [todo]\<rparr>)
           \<and> user_id todo = id_user user \<and> title todo = ttl
           \<and> id_todo todo \<notin> set (map id_todo (todos d))"
    using next_id_fresh [of "map id_todo (todos d)"]
    by (simp add: create_def validate_TodoCreate_def create_todo_def Let_def)
qed

theorem create_empty_or_one_witness:
  "''tea'' \<noteq> []
   \<and> create db_sample bob ''tea'' 20
       = (Inr (mk_todo 4 2 ''tea'' 20),
          db_sample\<lparr>todos := todos db_sample @ [mk_todo 4 2 ''tea'' 20]\<rparr>)
   \<and> create db_sample bob [] 20 = (Inl ValidationError, db_sample)"
proof -
  have "create db_sample bob ''tea'' 20
       = (Inr (mk_todo 4 2 ''tea'' 20),
          db_sample\<lparr>todos := todos db_sample @ [mk_todo 4 2 ''tea'' 20]\<rparr>)"
    by (simp add: create_def validate_TodoCreate_def create_todo_def Let_def next_id_def
        db_sample_def mk_todo_def bob_def)
  then show ?thesis
    using create_empty_or_one [of db_sample bob 20 "''tea''"] by simp
qed

end
